theory Spec2Isabelle
  imports Complex_Main "HOL-Library.Product_Lexorder"
begin

section \<open>Text\<close>

text \<open>
  Python strings are sequences of Unicode code points, and \<open>len\<close> counts code points.
  A text is therefore a list of code points; identifiers that the code builds from ASCII
  only are kept as \<open>string\<close>.
\<close>

type_synonym ustr = "nat list"

text \<open>
  \<open>str.isspace\<close>, which is also the class \<open>\s\<close> of the \<open>re\<close> module on \<open>str\<close> patterns and
  the set that \<open>str.strip()\<close> removes: the 29 white space code points of CPython.
\<close>

definition is_space :: "nat \<Rightarrow> bool" where
  "is_space c \<longleftrightarrow>
     (9 \<le> c \<and> c \<le> 13) \<or> (28 \<le> c \<and> c \<le> 32) \<or> c = 133 \<or> c = 160 \<or> c = 5760 \<or>
     (8192 \<le> c \<and> c \<le> 8202) \<or> c = 8232 \<or> c = 8233 \<or> c = 8239 \<or> c = 8287 \<or> c = 12288"

text \<open>
  The class \<open>\d\<close> on \<open>str\<close> patterns: the decimal digits of Unicode (category Nd), given
  by the first and last code point of each run (Unicode 14, as in CPython 3.11).
\<close>

definition nd_ranges :: "(nat \<times> nat) list" where
  "nd_ranges =
    [(48, 57), (1632, 1641), (1776, 1785), (1984, 1993), (2406, 2415), (2534, 2543),
     (2662, 2671), (2790, 2799), (2918, 2927), (3046, 3055), (3174, 3183), (3302, 3311),
     (3430, 3439), (3558, 3567), (3664, 3673), (3792, 3801), (3872, 3881), (4160, 4169),
     (4240, 4249), (6112, 6121), (6160, 6169), (6470, 6479), (6608, 6617), (6784, 6793),
     (6800, 6809), (6992, 7001), (7088, 7097), (7232, 7241), (7248, 7257), (42528, 42537),
     (43216, 43225), (43264, 43273), (43472, 43481), (43504, 43513), (43600, 43609),
     (44016, 44025), (65296, 65305), (66720, 66729), (68912, 68921), (69734, 69743),
     (69872, 69881), (69942, 69951), (70096, 70105), (70384, 70393), (70736, 70745),
     (70864, 70873), (71248, 71257), (71360, 71369), (71472, 71481), (71904, 71913),
     (72016, 72025), (72784, 72793), (73040, 73049), (73120, 73129), (92768, 92777),
     (92864, 92873), (93008, 93017), (120782, 120831), (123200, 123209), (123632, 123641),
     (125264, 125273), (130032, 130041)]"

definition is_digit :: "nat \<Rightarrow> bool" where
  "is_digit c = list_ex (\<lambda>(lo, hi). lo \<le> c \<and> c \<le> hi) nd_ranges"

text \<open>\<open>str.strip()\<close> with no argument.\<close>

definition strip :: "ustr \<Rightarrow> ustr" where
  "strip s = rev (dropWhile is_space (rev (dropWhile is_space s)))"

text \<open>The substring test \<open>w in s\<close>.\<close>

fun contains :: "ustr \<Rightarrow> ustr \<Rightarrow> bool" where
  "contains w [] = (w = [])"
| "contains w (c # cs) = (take (length w) (c # cs) = w \<or> contains w cs)"

section \<open>Regular expressions of the \<open>re\<close> module\<close>

text \<open>
  The patterns of the source use literals, character classes, concatenation, alternation
  and greedy repetition; none has an anchor, a look-around or a capturing group.
  \<open>Plus\<close> and \<open>AtLeast3\<close> are the repetitions \<open>+\<close> and \<open>{3,}\<close>.
\<close>

datatype regex =
  Lit ustr
  | Cls "nat \<Rightarrow> bool"
  | Seq regex regex
  | Alt regex regex
  | Star regex

definition Plus :: "regex \<Rightarrow> regex" where
  "Plus r = Seq r (Star r)"

definition AtLeast3 :: "regex \<Rightarrow> regex" where
  "AtLeast3 r = Seq r (Seq r (Seq r (Star r)))"

text \<open>A class given by its members, as in \<open>[abc]\<close>; the alternation of several literals.\<close>

definition one_of :: "nat list \<Rightarrow> regex" where
  "one_of cs = Cls (\<lambda>c. c \<in> set cs)"

fun alts :: "ustr list \<Rightarrow> regex" where
  "alts [] = Cls (\<lambda>c. False)"
| "alts [w] = Lit w"
| "alts (w # ws) = Alt (Lit w) (alts ws)"

text \<open>
  The backtracking matcher: \<open>matches r s\<close> lists the lengths of the prefixes of \<open>s\<close> that
  \<open>r\<close> matches, in the order in which the engine tries them (the left alternative first,
  the longest repetition first). The engine's match at a position is the first of them.
  An iteration of a repetition that consumes nothing is not repeated.
\<close>

function matches :: "regex \<Rightarrow> ustr \<Rightarrow> nat list" where
  "matches (Lit w) s = (if take (length w) s = w then [length w] else [])"
| "matches (Cls p) s = (case s of [] \<Rightarrow> [] | c # _ \<Rightarrow> if p c then [1] else [])"
| "matches (Seq r1 r2) s =
     concat (map (\<lambda>n. map (\<lambda>m. n + m) (matches r2 (drop n s))) (matches r1 s))"
| "matches (Alt r1 r2) s = matches r1 s @ matches r2 s"
| "matches (Star r) s =
     concat (map (\<lambda>n. if 0 < n \<and> n \<le> length s
                        then map (\<lambda>m. n + m) (matches (Star r) (drop n s)) else [])
                 (matches r s)) @ [0]"
  by pat_completeness auto
termination
  by (relation "measures [\<lambda>(r, s). size r, \<lambda>(r, s). length s]") auto

text \<open>\<open>pattern.match\<close> anchored at the start of \<open>s\<close>: the length of the match, if any.\<close>

definition match_at :: "regex \<Rightarrow> ustr \<Rightarrow> nat option" where
  "match_at r s = (case matches r s of [] \<Rightarrow> None | n # _ \<Rightarrow> Some n)"

text \<open>
  \<open>re.sub(pattern, repl, s)\<close> for a replacement without group references: scan from the
  left, replace the match at the first position that has one, go on behind it. Every
  pattern that the source substitutes matches at least one character; a match of length
  0, which does not arise for them, is not replaced.
\<close>

function re_sub :: "regex \<Rightarrow> ustr \<Rightarrow> ustr \<Rightarrow> ustr" where
  "re_sub r rep [] = []"
| "re_sub r rep (c # cs) =
     (case match_at r (c # cs) of
        Some n \<Rightarrow> if 0 < n then rep @ re_sub r rep (drop n (c # cs))
                  else c # re_sub r rep cs
      | None \<Rightarrow> c # re_sub r rep cs)"
  by pat_completeness auto
termination
  by (relation "measure (\<lambda>(r, rep, s). length s)") auto

text \<open>
  \<open>re.split(pattern, s)\<close> for a pattern without groups: the pieces between the matches;
  \<open>cur\<close> is the piece being read.
\<close>

function re_split_from :: "regex \<Rightarrow> ustr \<Rightarrow> ustr \<Rightarrow> ustr list" where
  "re_split_from r cur [] = [cur]"
| "re_split_from r cur (c # cs) =
     (case match_at r (c # cs) of
        Some n \<Rightarrow> if 0 < n then cur # re_split_from r [] (drop n (c # cs))
                  else re_split_from r (cur @ [c]) cs
      | None \<Rightarrow> re_split_from r (cur @ [c]) cs)"
  by pat_completeness auto
termination
  by (relation "measure (\<lambda>(r, cur, s). length s)") auto

definition re_split :: "regex \<Rightarrow> ustr \<Rightarrow> ustr list" where
  "re_split r s = re_split_from r [] s"

text \<open>\<open>re.search(pattern, s)\<close> as a truth value: some position has a match.\<close>

fun re_search :: "regex \<Rightarrow> ustr \<Rightarrow> bool" where
  "re_search r [] = (match_at r [] \<noteq> None)"
| "re_search r (c # cs) = (match_at r (c # cs) \<noteq> None \<or> re_search r cs)"

text \<open>\<open>re.findall(pattern, s)\<close> for a pattern without groups: the matched substrings.\<close>

function re_findall :: "regex \<Rightarrow> ustr \<Rightarrow> ustr list" where
  "re_findall r [] = []"
| "re_findall r (c # cs) =
     (case match_at r (c # cs) of
        Some n \<Rightarrow> if 0 < n then take n (c # cs) # re_findall r (drop n (c # cs))
                  else re_findall r cs
      | None \<Rightarrow> re_findall r cs)"
  by pat_completeness auto
termination
  by (relation "measure (\<lambda>(r, s). length s)") auto

section \<open>knowledge\_annotator.py: annotations and the overlap merge\<close>

datatype AnnotationType =
  MEDICAL_TERM | DISEASE | SYMPTOM | TREATMENT | ANATOMY | PATHOLOGY
  | DIAGNOSTIC_METHOD | MEDICATION

text \<open>
  The dataclass \<open>MedicalAnnotation\<close>. Positions are Python integers; the confidence is a
  float that the merge only compares, modelled as a real number.
\<close>

record MedicalAnnotation =
  text_of :: ustr
  start_pos :: int
  end_pos :: int
  annotation_type :: AnnotationType
  confidence :: real
  metadata :: "(string \<times> ustr) list"

text \<open>The sort key of \<open>sorted(annotations, key=lambda x: (x.start_pos, x.end_pos))\<close>.\<close>

definition pos_key :: "MedicalAnnotation \<Rightarrow> int \<times> int" where
  "pos_key x = (start_pos x, end_pos x)"

text \<open>
  One iteration of the loop over \<open>sorted_annotations\<close>: \<open>merged\<close> is the list built so
  far, \<open>merged[-1] = current\<close> replaces its last element.
\<close>

definition merge_step :: "MedicalAnnotation list \<Rightarrow> MedicalAnnotation \<Rightarrow> MedicalAnnotation list" where
  "merge_step merged current =
     (if merged = [] then [current]
      else let l = last merged in
        if start_pos current \<le> end_pos l then
          (if confidence current > confidence l \<or>
              (confidence current = confidence l \<and>
               end_pos current - start_pos current > end_pos l - start_pos l)
           then butlast merged @ [current]
           else merged)
        else merged @ [current])"

definition merge_overlapping_annotations :: "MedicalAnnotation list \<Rightarrow> MedicalAnnotation list" where
  "merge_overlapping_annotations annotations =
     (if annotations = [] then []
      else foldl merge_step [] (sort_key pos_key annotations))"

text \<open>The overlap test of the data model: the two half-open spans intersect.\<close>

definition overlaps :: "MedicalAnnotation \<Rightarrow> MedicalAnnotation \<Rightarrow> bool" where
  "overlaps a b \<longleftrightarrow> start_pos a < end_pos b \<and> start_pos b < end_pos a"

text \<open>Every later element starts strictly after the end of every earlier one.\<close>

definition separated :: "MedicalAnnotation list \<Rightarrow> bool" where
  "separated xs = sorted_wrt (\<lambda>a b. end_pos a < start_pos b) xs"

section \<open>data\_cleaner.py: the text cleaner\<close>

text \<open>The concatenation of several patterns.\<close>

fun seqs :: "regex list \<Rightarrow> regex" where
  "seqs [] = Lit []"
| "seqs [r] = r"
| "seqs (r # rs) = Seq r (seqs rs)"

text \<open>
  \<open>self.noise_patterns\<close>, in the order of the list:
  \<^item> \<open>\[X\s*\d+[-\.\d]*\]\<close> with X = U+56FE (figure reference),
  \<^item> the same with X = U+8868 (table reference),
  \<^item> \<open>X\s*\d+\s*Y\<close> with X = U+7B2C and Y = U+9875 (page number),
  \<^item> \<open>W\s*\[\d+\]\<close> with W = U+53C2 U+8003 U+6587 U+732E (bibliography reference),
  \<^item> \<open>W\s*[A-Z]\<close> with W = U+89C1 U+9644 U+5F55 (appendix reference),
  \<^item> \<open>\s{3,}\<close>,
  \<^item> \<open>\n{3,}\<close>.
\<close>

definition reference_pattern :: "nat \<Rightarrow> regex" where
  "reference_pattern x =
     seqs [Lit [91, x], Star (Cls is_space), Plus (Cls is_digit),
           Star (Cls (\<lambda>c. c = 45 \<or> c = 46 \<or> is_digit c)), Lit [93]]"

definition page_pattern :: regex where
  "page_pattern =
     seqs [Lit [31532], Star (Cls is_space), Plus (Cls is_digit), Star (Cls is_space),
           Lit [39029]]"

definition noise_patterns :: "regex list" where
  "noise_patterns =
    [reference_pattern 22270,
     reference_pattern 34920,
     page_pattern,
     seqs [Lit [21442, 32771, 25991, 29486], Star (Cls is_space), Lit [91],
           Plus (Cls is_digit), Lit [93]],
     seqs [Lit [35265, 38468, 24405], Star (Cls is_space), Cls (\<lambda>c. 65 \<le> c \<and> c \<le> 90)],
     AtLeast3 (Cls is_space),
     AtLeast3 (Lit [10])]"

text \<open>
  \<open>self.medical_patterns\<close>: for each category the alternatives of its non-capturing group.
\<close>

definition medical_patterns :: "(string \<times> ustr list) list" where
  "medical_patterns =
    [(''diseases'',
        [[30284], [32959, 30244], [28814], [30151], [30149], [32508, 21512, 24449],
         [32570, 38519], [30072, 24418], [25439, 20260], [30772, 35010], [20986, 34880],
         [26775, 27515], [22351, 27515]]),
     (''anatomy'',
        [[24515, 33039], [32954], [32925], [32958], [33041], [32963], [32928], [39592],
         [32908, 32905], [31070, 32463], [34880, 31649], [28107, 24052]]),
     (''pathology'',
        [[33391, 24615], [24694, 24615], [36716, 31227], [28024, 28070], [22686, 29983],
         [33806, 32553], [32420, 32500, 21270], [38041, 21270], [22218, 24615],
         [23454, 24615]]),
     (''diagnosis'',
        [[35786, 26029], [37492, 21035, 35786, 26029], [20020, 24202, 34920, 29616],
         [30151, 29366], [20307, 24449], [26816, 26597], [27835, 30103], [39044, 21518]]),
     (''histology'',
        [[32454, 32990], [32452, 32455], [19978, 30382], [38388, 36136], [33014, 21407],
         [24377, 24615, 32420, 32500], [34880, 31649], [31070, 32463, 32420, 32500]])]"

text \<open>
  \<open>_remove_noise\<close>: every noise pattern is replaced by one space (U+0020), then every run
  of white space by one space, then the text is stripped.
\<close>

definition remove_noise :: "ustr \<Rightarrow> ustr" where
  "remove_noise text =
     (let cleaned = foldl (\<lambda>cleaned pattern. re_sub pattern [32] cleaned) text noise_patterns;
          cleaned = re_sub (Plus (Cls is_space)) [32] cleaned
      in strip cleaned)"

text \<open>
  \<open>_normalize_format\<close>: six substitutions of a one-character class by one character.
  The comma U+FF0C or U+002C becomes U+FF0C; U+3002, U+FF1B and U+FF1A are replaced by
  themselves; the parentheses U+FF08 or U+0028 become U+FF08, and U+FF09 or U+0029 become
  U+FF09.
\<close>

definition normalize_format :: "ustr \<Rightarrow> ustr" where
  "normalize_format text =
     (let text = re_sub (one_of [65292, 44]) [65292] text;
          text = re_sub (one_of [12290, 12290]) [12290] text;
          text = re_sub (one_of [65307, 65307]) [65307] text;
          text = re_sub (one_of [65306, 65306]) [65306] text;
          text = re_sub (one_of [65288, 40]) [65288] text;
          text = re_sub (one_of [65289, 41]) [65289] text
      in text)"

text \<open>
  \<open>_extract_medical_terms\<close>. The pattern of a category is
  \<open>[^...\s]*(?:alternatives)[^...\s]*\<close>, where the excluded characters are U+FF0C, U+3002,
  U+FF1B, U+FF1A and white space. The matches of at least two characters are collected
  through a \<open>set\<close>: each once, in an order that Python does not fix (here the order of
  first occurrence).
\<close>

definition term_char :: "nat \<Rightarrow> bool" where
  "term_char c \<longleftrightarrow> c \<notin> set [65292, 12290, 65307, 65306] \<and> \<not> is_space c"

definition term_pattern :: "ustr list \<Rightarrow> regex" where
  "term_pattern ws = seqs [Star (Cls term_char), alts ws, Star (Cls term_char)]"

definition extract_medical_terms :: "ustr \<Rightarrow> (string \<times> ustr list) list" where
  "extract_medical_terms text =
     map (\<lambda>(category, pattern).
            (category,
             remdups (filter (\<lambda>m. length m \<ge> 2) (re_findall (term_pattern pattern) text))))
         medical_patterns"

datatype segment_kind = Definition | Symptoms | Diagnosis | Treatment | Etiology | General

text \<open>
  \<open>_classify_segment\<close>: the first group of key words that occurs in the text decides.
  The groups are, in this order: U+5B9A U+4E49, U+6982 U+5FF5, U+662F U+6307 (definition);
  U+75C7 U+72B6, U+8868 U+73B0, U+7279 U+5F81 (symptoms); U+8BCA U+65AD, U+68C0 U+67E5,
  U+9274 U+522B (diagnosis); U+6CBB U+7597, U+7528 U+836F, U+624B U+672F (treatment);
  U+75C5 U+56E0, U+53D1 U+75C5 U+673A U+5236 (etiology).
\<close>

definition classify_segment :: "ustr \<Rightarrow> segment_kind" where
  "classify_segment text =
     (if re_search (alts [[23450, 20041], [27010, 24565], [26159, 25351]]) text then Definition
      else if re_search (alts [[30151, 29366], [34920, 29616], [29305, 24449]]) text then Symptoms
      else if re_search (alts [[35786, 26029], [26816, 26597], [37492, 21035]]) text then Diagnosis
      else if re_search (alts [[27835, 30103], [29992, 33647], [25163, 26415]]) text then Treatment
      else if re_search (alts [[30149, 22240], [21457, 30149, 26426, 21046]]) text then Etiology
      else General)"

record segment =
  seg_id :: nat
  seg_content :: ustr
  seg_length :: nat
  seg_medical_terms :: "(string \<times> ustr list) list"
  segment_type :: segment_kind

text \<open>
  \<open>_segment_text\<close>: split at U+3002, U+FF01 and U+FF1F, strip each piece, skip the pieces
  of fewer than 10 characters; the id of a segment is the index of its piece.
\<close>

fun segments_from :: "nat \<Rightarrow> ustr list \<Rightarrow> segment list" where
  "segments_from i [] = []"
| "segments_from i (sentence # rest) =
     (let sentence = strip sentence in
      if length sentence < 10 then segments_from (Suc i) rest
      else \<lparr>seg_id = i, seg_content = sentence, seg_length = length sentence,
             seg_medical_terms = extract_medical_terms sentence,
             segment_type = classify_segment sentence\<rparr> # segments_from (Suc i) rest)"

definition segment_text :: "ustr \<Rightarrow> segment list" where
  "segment_text text = segments_from 0 (re_split (one_of [12290, 65281, 65311]) text)"

text \<open>
  \<open>round(x, 2)\<close>: to the nearest multiple of 1/100, a tie to the even one. The scores are
  floats in the source and real numbers here.
\<close>

definition round2 :: "real \<Rightarrow> real" where
  "round2 x =
     (let y = x * 100; f = \<lfloor>y\<rfloor>; d = y - of_int f in
      of_int (if d < 1 / 2 then f else if 1 / 2 < d then f + 1
              else if even f then f else f + 1) / 100)"

text \<open>
  \<open>_assess_quality\<close>. The structure indicators are U+5B9A U+4E49, U+75C7 U+72B6,
  U+8BCA U+65AD and U+6CBB U+7597.
\<close>

definition structure_indicators :: "ustr list" where
  "structure_indicators = [[23450, 20041], [30151, 29366], [35786, 26029], [27835, 30103]]"

definition assess_quality :: "ustr \<Rightarrow> (string \<times> ustr list) list \<Rightarrow> real" where
  "assess_quality text medical_terms =
     (let length_score = min (real (length text) / 1000 * 30) 30;
          total_terms = sum_list (map (\<lambda>(category, terms). length terms) medical_terms);
          terms_score = min (real total_terms / 20 * 40) 40;
          structure_score =
            sum_list (map (\<lambda>indicator. if contains indicator text then 10 else 0)
                          structure_indicators);
          score = length_score + terms_score + min structure_score 30
      in round2 (score / 100))"

record cleaning_result =
  success :: bool
  original_length :: nat
  cleaned_length :: nat
  cleaned_text :: ustr
  medical_terms :: "(string \<times> ustr list) list"
  segments :: "segment list"
  quality_score :: real
  noise_removed :: int
  medical_terms_count :: nat
  segments_count :: nat

text \<open>
  \<open>clean_medical_text\<close>. No step of the body raises on a \<open>str\<close>, so the \<open>except\<close> branch
  (the input echoed back with \<open>success = False\<close> and score 0) is not a result of the
  model.
\<close>

definition clean_medical_text :: "ustr \<Rightarrow> cleaning_result" where
  "clean_medical_text text =
     (let original_length = length text;
          cleaned_text = remove_noise text;
          cleaned_text = normalize_format cleaned_text;
          medical_terms = extract_medical_terms cleaned_text;
          segments = segment_text cleaned_text;
          quality_score = assess_quality cleaned_text medical_terms
      in \<lparr>success = True,
           original_length = original_length,
           cleaned_length = length cleaned_text,
           cleaned_text = cleaned_text,
           medical_terms = medical_terms,
           segments = segments,
           quality_score = quality_score,
           noise_removed = int original_length - int (length cleaned_text),
           medical_terms_count = length medical_terms,
           segments_count = length segments\<rparr>)"

text \<open>
  The file system as the cleaner sees it: a path names nothing, or a file that \<open>open\<close> and
  \<open>read\<close> return the text of, or something that exists and cannot be read as text.
\<close>

datatype file_node = Readable ustr | Unreadable

type_synonym filesystem = "ustr \<Rightarrow> file_node option"

datatype batch_entry =
  Processed cleaning_result ustr nat
  | Failed ustr nat

record batch_report =
  total_files :: nat
  successful :: nat
  failed :: nat
  results :: "batch_entry list"
  success_rate :: real
  average_quality :: real

text \<open>
  \<open>batch_clean_files\<close>: a file that cannot be opened or read gives an error entry and the
  loop goes on; \<open>file_index\<close> counts from 1.
\<close>

fun batch_entries :: "filesystem \<Rightarrow> nat \<Rightarrow> ustr list \<Rightarrow> batch_entry list" where
  "batch_entries fs i [] = []"
| "batch_entries fs i (file_path # rest) =
     (case fs file_path of
        Some (Readable content) \<Rightarrow> Processed (clean_medical_text content) file_path (i + 1)
      | _ \<Rightarrow> Failed file_path (i + 1)) # batch_entries fs (Suc i) rest"

fun entry_success :: "batch_entry \<Rightarrow> bool" where
  "entry_success (Processed r p i) = success r"
| "entry_success (Failed p i) = False"

fun entry_quality :: "batch_entry \<Rightarrow> real" where
  "entry_quality (Processed r p i) = quality_score r"
| "entry_quality (Failed p i) = 0"

definition batch_clean_files :: "filesystem \<Rightarrow> ustr list \<Rightarrow> batch_report" where
  "batch_clean_files fs file_paths =
     (let rs = batch_entries fs 0 file_paths;
          total = length file_paths;
          ok = length (filter entry_success rs)
      in \<lparr>total_files = total,
           successful = ok,
           failed = total - ok,
           results = rs,
           success_rate = (if total > 0 then real ok / real total else 0),
           average_quality =
             (if ok > 0 then sum_list (map entry_quality (filter entry_success rs)) / real ok
              else 0)\<rparr>)"

section \<open>local\_mcp\_service.py: the tool \<open>medical_data_cleaner\<close>\<close>

text \<open>\<open>s.split(',')\<close>: the pieces between the occurrences of a separator character.\<close>

fun split_on :: "nat \<Rightarrow> ustr \<Rightarrow> ustr \<Rightarrow> ustr list" where
  "split_on sep cur [] = [cur]"
| "split_on sep cur (c # cs) =
     (if c = sep then cur # split_on sep [] cs else split_on sep (cur @ [c]) cs)"

text \<open>
  The exceptions that the body of the tool can raise; each of them ends in the error
  result of the \<open>except\<close> branch.
\<close>

datatype tool_error =
  ValueError_no_input
  | FileNotFoundError ustr
  | ReadError ustr

datatype tool_output =
  BatchResult batch_report
  | FileResult cleaning_result ustr
  | TextResult cleaning_result
  | ErrorResult tool_error

text \<open>
  \<open>medical_data_cleaner(text_content, file_path, batch_file_paths)\<close>: an \<open>if\<close>/\<open>elif\<close>
  chain over the three arguments, \<open>batch_file_paths\<close> first; a string is true when it is
  not empty. \<open>FileResult\<close> carries \<open>source_file\<close>, \<open>TextResult\<close> is the result tagged
  \<open>direct_input\<close>.
\<close>

definition medical_data_cleaner :: "filesystem \<Rightarrow> ustr \<Rightarrow> ustr \<Rightarrow> ustr \<Rightarrow> tool_output" where
  "medical_data_cleaner fs text_content file_path batch_file_paths =
     (if batch_file_paths \<noteq> [] then
        (let file_paths =
               map strip (filter (\<lambda>path. strip path \<noteq> []) (split_on 44 [] batch_file_paths))
         in BatchResult (batch_clean_files fs file_paths))
      else if file_path \<noteq> [] then
        (case fs file_path of
           None \<Rightarrow> ErrorResult (FileNotFoundError file_path)
         | Some Unreadable \<Rightarrow> ErrorResult (ReadError file_path)
         | Some (Readable content) \<Rightarrow> FileResult (clean_medical_text content) file_path)
      else if text_content \<noteq> [] then TextResult (clean_medical_text text_content)
      else ErrorResult ValueError_no_input)"

fun is_error :: "tool_output \<Rightarrow> bool" where
  "is_error (ErrorResult e) = True"
| "is_error _ = False"

text \<open>How many of the three arguments a call supplies.\<close>

definition supplied :: "ustr \<Rightarrow> ustr \<Rightarrow> ustr \<Rightarrow> nat" where
  "supplied text_content file_path batch_file_paths =
     length (filter (\<lambda>a. a \<noteq> []) [text_content, file_path, batch_file_paths])"

section \<open>knowledge\_base\_integrator.py: documents and bulk indexing\<close>

text \<open>An ASCII literal of the source as a text.\<close>

definition ascii :: "string \<Rightarrow> ustr" where
  "ascii s = map of_char s"

text \<open>
  The elements of a QA data set are typed \<open>Dict[str, Any]\<close> and come from \<open>json.loads\<close>:
  a value is any JSON value. A dictionary is an association list; a key is looked up
  with \<open>map_of\<close>.
\<close>

datatype jvalue =
  JNull
  | JBool bool
  | JInt int
  | JFloat real
  | JStr ustr
  | JList "jvalue list"
  | JDict "(ustr \<times> jvalue) list"

text \<open>
  Functions of the Python library that the code calls and whose definition is not part
  of the repository: \<open>json.loads\<close> (\<open>None\<close> for a \<open>JSONDecodeError\<close>), \<open>str\<close> of a value as
  an f-string inserts it, \<open>str.lower\<close>, the class \<open>\w\<close> of the \<open>re\<close> module, and
  \<open>str.format\<close> with keyword arguments on a string built at run time (\<open>None\<close> when it
  raises). The functions of the model take them as a parameter.
\<close>

record pylib =
  json_loads :: "ustr \<Rightarrow> jvalue option"
  py_str :: "jvalue \<Rightarrow> ustr"
  str_lower :: "ustr \<Rightarrow> ustr"
  is_word :: "nat \<Rightarrow> bool"
  format_str :: "ustr \<Rightarrow> (string \<times> ustr) list \<Rightarrow> ustr option"

text \<open>\<open>d.get(key, default)\<close> and \<open>key in d\<close>.\<close>

definition dict_get :: "(ustr \<times> jvalue) list \<Rightarrow> ustr \<Rightarrow> jvalue \<Rightarrow> jvalue" where
  "dict_get d key dflt = (case map_of d key of None \<Rightarrow> dflt | Some v \<Rightarrow> v)"

definition has_key :: "(ustr \<times> jvalue) list \<Rightarrow> ustr \<Rightarrow> bool" where
  "has_key d key \<longleftrightarrow> map_of d key \<noteq> None"

text \<open>
  \<open>f"{v[:50]}"\<close>: the first 50 characters of a string, the text of the first 50 elements
  of a list; any other JSON value cannot be sliced and the expression raises (\<open>None\<close>).
\<close>

fun preview50 :: "pylib \<Rightarrow> jvalue \<Rightarrow> ustr option" where
  "preview50 L (JStr s) = Some (take 50 s)"
| "preview50 L (JList xs) = Some (py_str L (JList (take 50 xs)))"
| "preview50 L v = None"

text \<open>\<open>len(v)\<close>: defined on strings, lists and dictionaries, a \<open>TypeError\<close> otherwise.\<close>

fun py_len :: "jvalue \<Rightarrow> nat option" where
  "py_len (JStr s) = Some (length s)"
| "py_len (JList xs) = Some (length xs)"
| "py_len (JDict d) = Some (length (remdups (map fst d)))"
| "py_len v = None"

text \<open>\<open>str(i)\<close> of an index: its decimal digits.\<close>

function decimal :: "nat \<Rightarrow> ustr" where
  "decimal n = (if n < 10 then [48 + n] else decimal (n div 10) @ [48 + n mod 10])"
  by pat_completeness auto
termination
  by (relation "measure id") auto

datatype doc_kind = medical_question | medical_answer

text \<open>
  The two document dictionaries. \<open>create_time\<close>, a reading of the wall clock, is left
  out. A field that only one of the two kinds of document has is an option. No document
  of the converter has the key \<open>embedding\<close>, which \<open>_direct_bulk_index\<close> deletes.
\<close>

record doc_metadata =
  is_question :: bool
  related_answer_id :: "ustr option"
  related_question_id :: "ustr option"
  md_quality_score :: jvalue
  md_keywords :: jvalue
  answer_length :: "nat option"
  md_medical_terms :: "jvalue option"

record document =
  doc_id :: ustr
  title :: ustr
  doc_content :: jvalue
  document_type :: doc_kind
  qa_pair_id :: nat
  difficulty_level :: jvalue
  question_type :: jvalue
  medical_domain :: jvalue
  doc_source :: ustr
  doc_metadata :: doc_metadata
  embedding :: "jvalue option"

definition question_id :: "nat \<Rightarrow> ustr" where
  "question_id i = ascii ''qa_'' @ decimal i @ ascii ''_question''"

definition answer_id :: "nat \<Rightarrow> ustr" where
  "answer_id i = ascii ''qa_'' @ decimal i @ ascii ''_answer''"

text \<open>
  The question document of the pair at position \<open>i\<close>; \<open>preview\<close> is the formatted
  \<open>qa_pair.get('question', '')[:50]\<close>. The title starts with U+533B U+7597 U+95EE U+9898,
  a colon and a space.
\<close>

definition question_doc :: "nat \<Rightarrow> (ustr \<times> jvalue) list \<Rightarrow> ustr \<Rightarrow> document" where
  "question_doc i qa_pair preview =
     \<lparr>doc_id = question_id i,
      title = [21307, 30103, 38382, 39064, 58, 32] @ preview @ ascii ''...'',
      doc_content = dict_get qa_pair (ascii ''question'') (JStr []),
      document_type = medical_question,
      qa_pair_id = i,
      difficulty_level = dict_get qa_pair (ascii ''difficulty_level'') (JStr (ascii ''medium'')),
      question_type = dict_get qa_pair (ascii ''question_type'') (JStr (ascii ''general'')),
      medical_domain = dict_get qa_pair (ascii ''medical_domain'') (JStr (ascii ''pathology'')),
      doc_source = ascii ''medical_data_engineering'',
      doc_metadata =
        \<lparr>is_question = True,
         related_answer_id = Some (answer_id i),
         related_question_id = None,
         md_quality_score = dict_get qa_pair (ascii ''quality_score'') (JFloat 0.5),
         md_keywords = dict_get qa_pair (ascii ''keywords'') (JList []),
         answer_length = None,
         md_medical_terms = None\<rparr>,
      embedding = None\<rparr>"

text \<open>
  The answer document; \<open>n\<close> is \<open>len(qa_pair.get('answer', ''))\<close>. The title starts with
  U+533B U+7597 U+7B54 U+6848, a colon and a space.
\<close>

definition answer_doc :: "nat \<Rightarrow> (ustr \<times> jvalue) list \<Rightarrow> ustr \<Rightarrow> nat \<Rightarrow> document" where
  "answer_doc i qa_pair preview n =
     \<lparr>doc_id = answer_id i,
      title = [21307, 30103, 31572, 26696, 58, 32] @ preview @ ascii ''...'',
      doc_content = dict_get qa_pair (ascii ''answer'') (JStr []),
      document_type = medical_answer,
      qa_pair_id = i,
      difficulty_level = dict_get qa_pair (ascii ''difficulty_level'') (JStr (ascii ''medium'')),
      question_type = dict_get qa_pair (ascii ''question_type'') (JStr (ascii ''general'')),
      medical_domain = dict_get qa_pair (ascii ''medical_domain'') (JStr (ascii ''pathology'')),
      doc_source = ascii ''medical_data_engineering'',
      doc_metadata =
        \<lparr>is_question = False,
         related_answer_id = None,
         related_question_id = Some (question_id i),
         md_quality_score = dict_get qa_pair (ascii ''quality_score'') (JFloat 0.5),
         md_keywords = dict_get qa_pair (ascii ''keywords'') (JList []),
         answer_length = Some n,
         md_medical_terms = Some (dict_get qa_pair (ascii ''medical_terms'') (JList []))\<rparr>,
      embedding = None\<rparr>"

text \<open>
  The body of the loop of \<open>_convert_qa_to_documents\<close> for the element at position \<open>i\<close>;
  every \<open>continue\<close> and every exception caught by the \<open>try\<close> of the loop gives no
  document. A string is parsed first; a value that is not a dictionary, or a dictionary
  without the key \<open>question\<close> or the key \<open>answer\<close>, is skipped; building the documents
  raises when the question cannot be sliced or the answer has no length.
\<close>

definition parsed_item :: "pylib \<Rightarrow> jvalue \<Rightarrow> jvalue option" where
  "parsed_item L qa_pair = (case qa_pair of JStr s \<Rightarrow> json_loads L s | v \<Rightarrow> Some v)"

definition build_documents :: "pylib \<Rightarrow> nat \<Rightarrow> (ustr \<times> jvalue) list \<Rightarrow> document list" where
  "build_documents L i qa_pair =
     (case preview50 L (dict_get qa_pair (ascii ''question'') (JStr [])) of
        None \<Rightarrow> []
      | Some preview \<Rightarrow>
          (case py_len (dict_get qa_pair (ascii ''answer'') (JStr [])) of
             None \<Rightarrow> []
           | Some n \<Rightarrow> [question_doc i qa_pair preview, answer_doc i qa_pair preview n]))"

definition convert_item :: "pylib \<Rightarrow> nat \<Rightarrow> jvalue \<Rightarrow> document list" where
  "convert_item L i qa_pair =
     (case parsed_item L qa_pair of
        None \<Rightarrow> []
      | Some (JDict d) \<Rightarrow>
          if \<not> has_key d (ascii ''question'') \<or> \<not> has_key d (ascii ''answer'') then []
          else build_documents L i d
      | Some v \<Rightarrow> [])"

fun convert_from :: "pylib \<Rightarrow> nat \<Rightarrow> jvalue list \<Rightarrow> document list" where
  "convert_from L i [] = []"
| "convert_from L i (qa_pair # rest) = convert_item L i qa_pair @ convert_from L (Suc i) rest"

definition convert_qa_to_documents :: "pylib \<Rightarrow> jvalue list \<Rightarrow> document list" where
  "convert_qa_to_documents L qa_dataset = convert_from L 0 qa_dataset"




subsection \<open>The search engine client\<close>

text \<open>
  A bulk request is the index name and the list of operations: for every document an
  action line and the document. The client answers with a response or raises. Every
  call is recorded in the state, in the order of the calls.
\<close>

datatype bulk_op = IndexAction ustr | Source document

datatype bulk_item = IndexItem "int option" bool | OtherItem

record bulk_response =
  errors :: bool
  items :: "bulk_item list"

type_synonym bulk_client = "ustr \<Rightarrow> bulk_op list \<Rightarrow> ustr + bulk_response"

type_synonym es_state = "(ustr \<times> bulk_op list) list"

datatype integration_error =
  EmptyDataset
  | NoValidDocuments
  | EmptyOperations
  | ClientException ustr

text \<open>
  The result dictionaries of \<open>integrate_qa_dataset\<close> and \<open>_direct_bulk_index\<close>; the
  time stamp \<open>integration_time\<close> is left out.
\<close>

record integration_result =
  ir_success :: bool
  ir_error :: "integration_error option"
  total_processed :: nat
  total_documents_created :: "nat option"
  total_indexed :: "nat option"
  ir_index_name :: "ustr option"

definition failure :: "integration_error \<Rightarrow> ustr option \<Rightarrow> integration_result" where
  "failure e name =
     \<lparr>ir_success = False, ir_error = Some e, total_processed = 0,
      total_documents_created = None, total_indexed = None, ir_index_name = name\<rparr>"

text \<open>An item counts as indexed when it has the key \<open>index\<close> with status 200 or 201.\<close>

fun indexed_item :: "bulk_item \<Rightarrow> bool" where
  "indexed_item (IndexItem (Some status) err) = (status = 200 \<or> status = 201)"
| "indexed_item _ = False"

text \<open>
  \<open>_direct_bulk_index\<close>: the state is returned unchanged on the two early returns, and
  with the call appended when \<open>self.es_core.client.bulk\<close> has been called, whether it
  returned or raised.
\<close>

definition direct_bulk_index ::
  "pylib \<Rightarrow> bulk_client \<Rightarrow> es_state \<Rightarrow> document list \<Rightarrow> ustr \<Rightarrow> integration_result \<times> es_state"
where
  "direct_bulk_index L client st documents index_name =
     (let index_name = str_lower L index_name in
      if documents = [] then (failure NoValidDocuments (Some index_name), st)
      else
        let operations =
              concat (map (\<lambda>doc. [IndexAction index_name, Source (doc\<lparr>embedding := None\<rparr>)])
                          documents)
        in if operations = [] then (failure EmptyOperations (Some index_name), st)
           else
             (case client index_name operations of
                Inl e \<Rightarrow>
                  (failure (ClientException e) (Some index_name),
                   st @ [(index_name, operations)])
              | Inr response \<Rightarrow>
                  (\<lparr>ir_success = True, ir_error = None,
                    total_processed = length documents div 2,
                    total_documents_created = Some (length documents),
                    total_indexed = Some (length (filter indexed_item (items response))),
                    ir_index_name = Some index_name\<rparr>,
                   st @ [(index_name, operations)])))"

text \<open>\<open>integrate_qa_dataset\<close>; the result for an empty data set has no index name.\<close>

definition integrate_qa_dataset ::
  "pylib \<Rightarrow> bulk_client \<Rightarrow> es_state \<Rightarrow> jvalue list \<Rightarrow> ustr \<Rightarrow> integration_result \<times> es_state"
where
  "integrate_qa_dataset L client st qa_dataset index_name =
     (let index_name = str_lower L index_name in
      if qa_dataset = [] then (failure EmptyDataset None, st)
      else
        let documents = convert_qa_to_documents L qa_dataset
        in direct_bulk_index L client st documents index_name)"

section \<open>qa\_generator.py: question and answer generation\<close>

text \<open>The six question types, in the order of the list \<open>question_types\<close>.\<close>

datatype qtype = QDefinition | QSymptoms | QDiagnosis | QTreatment | QPathology | QDifferential

definition question_types :: "qtype list" where
  "question_types = [QDefinition, QSymptoms, QDiagnosis, QTreatment, QPathology, QDifferential]"

text \<open>
  A template literal as \<open>str.format\<close> reads it: literal text and replacement fields
  \<open>{name}\<close>. \<open>self.question_templates\<close> has four templates for each type; the second one
  of \<open>differential\<close> is the only one with the field \<open>other_disease\<close>.
\<close>

datatype tpart = Txt ustr | Field string

type_synonym template = "tpart list"

fun question_templates :: "qtype \<Rightarrow> template list" where
  "question_templates QDefinition =
     [[Txt [20160, 20040, 26159], Field ''term'', Txt [65311]],
      [Field ''term'', Txt [30340, 23450, 20041, 26159, 20160, 20040, 65311]],
      [Txt [35831, 35299, 37322], Field ''term'', Txt [30340, 21547, 20041, 12290]],
      [Field ''term'', Txt [26159, 25351, 20160, 20040, 65311]]]"
| "question_templates QSymptoms =
     [[Field ''disease'', Txt [26377, 21738, 20123, 30151, 29366, 65311]],
      [Field ''disease'', Txt [30340, 20020, 24202, 34920, 29616, 26159, 20160, 20040,
      65311]],
      [Field ''disease'', Txt [24739, 32773, 20250, 20986, 29616, 20160, 20040, 30151,
      29366, 65311]],
      [Txt [22914, 20309, 35782, 21035], Field ''disease'', Txt [30340, 30151, 29366,
      65311]]]"
| "question_templates QDiagnosis =
     [[Txt [22914, 20309, 35786, 26029], Field ''disease'', Txt [65311]],
      [Field ''disease'', Txt [30340, 35786, 26029, 26041, 27861, 26377, 21738, 20123,
      65311]],
      [Field ''disease'', Txt [38656, 35201, 20570, 21738, 20123, 26816, 26597, 65311]],
      [Txt [24590, 26679, 30830, 35786], Field ''disease'', Txt [65311]]]"
| "question_templates QTreatment =
     [[Field ''disease'', Txt [22914, 20309, 27835, 30103, 65311]],
      [Field ''disease'', Txt [30340, 27835, 30103, 26041, 26696, 26159, 20160, 20040,
      65311]],
      [Field ''disease'', Txt [26377, 21738, 20123, 27835, 30103, 26041, 27861, 65311]],
      [Txt [22914, 20309, 27835, 30103], Field ''disease'', Txt [24739, 32773, 65311]]]"
| "question_templates QPathology =
     [[Field ''disease'', Txt [30340, 30149, 29702, 29305, 24449, 26159, 20160, 20040,
      65311]],
      [Field ''disease'', Txt [22312, 26174, 24494, 38236, 19979, 26377, 20160, 20040,
      34920, 29616, 65311]],
      [Field ''disease'', Txt [30340, 32452, 32455, 23398, 29305, 28857, 26377, 21738,
      20123, 65311]],
      [Field ''disease'', Txt [30340, 30149, 29702, 25913, 21464, 21253, 25324, 20160,
      20040, 65311]]]"
| "question_templates QDifferential =
     [[Field ''disease'', Txt [38656, 35201, 19982, 21738, 20123, 30142, 30149, 37492,
      21035, 65311]],
      [Txt [22914, 20309, 37492, 21035], Field ''disease'', Txt [21644], Field
      ''other_disease'', Txt [65311]],
      [Field ''disease'', Txt [30340, 37492, 21035, 35786, 26029, 35201, 28857, 26159,
      20160, 20040, 65311]],
      [Field ''disease'', Txt [23481, 26131, 19982, 20160, 20040, 30142, 30149, 28151,
      28102, 65311]]]"

text \<open>
  \<open>template.format(**args)\<close>: every field is replaced by the argument of its name; a
  field without an argument raises \<open>KeyError\<close> (\<open>None\<close>).
\<close>

fun format_template :: "template \<Rightarrow> (string \<times> ustr) list \<Rightarrow> ustr option" where
  "format_template [] args = Some []"
| "format_template (Txt s # ps) args = map_option (\<lambda>rest. s @ rest) (format_template ps args)"
| "format_template (Field name # ps) args =
     (case map_of args name of
        None \<Rightarrow> None
      | Some v \<Rightarrow> map_option (\<lambda>rest. v @ rest) (format_template ps args))"

subsection \<open>Difficulty\<close>

datatype difficulty = easy | medium | hard

text \<open>
  The dictionary \<open>complexity_indicators\<close> of \<open>_assess_difficulty\<close>: its keys in the order
  of insertion and the key words of each key. They are U+4EC0 U+4E48 U+662F, U+5B9A U+4E49,
  U+57FA U+672C, U+5E38 U+89C1 (easy); U+5982 U+4F55, U+8BCA U+65AD, U+6CBB U+7597,
  U+75C7 U+72B6 (medium); U+673A U+5236, U+75C5 U+7406, U+9274 U+522B, U+590D U+6742 (hard).
\<close>

definition levels :: "difficulty list" where
  "levels = [easy, medium, hard]"

fun complexity_indicators :: "difficulty \<Rightarrow> ustr list" where
  "complexity_indicators easy =
     [[20160, 20040, 26159], [23450, 20041], [22522, 26412], [24120, 35265]]"
| "complexity_indicators medium =
     [[22914, 20309], [35786, 26029], [27835, 30103], [30151, 29366]]"
| "complexity_indicators hard =
     [[26426, 21046], [30149, 29702], [37492, 21035], [22797, 26434]]"

text \<open>\<open>sum(1 for indicator in indicators if indicator in text)\<close>.\<close>

definition score :: "difficulty \<Rightarrow> ustr \<Rightarrow> nat" where
  "score level t = length (filter (\<lambda>indicator. contains indicator t) (complexity_indicators level))"

text \<open>
  \<open>max(iterable, key=f)\<close> on a non-empty iterable: the first element whose key is
  maximal; \<open>best\<close> is replaced only by an element with a strictly greater key.
\<close>

fun max_by :: "('a \<Rightarrow> nat) \<Rightarrow> 'a \<Rightarrow> 'a list \<Rightarrow> 'a" where
  "max_by f best [] = best"
| "max_by f best (x # xs) = max_by f (if f best < f x then x else best) xs"

text \<open>
  \<open>_assess_difficulty\<close>: \<open>scores\<close> gets an entry for every level;
  \<open>max(scores, key=scores.get) if scores else 'medium'\<close>.
\<close>

definition assess_difficulty :: "ustr \<Rightarrow> ustr \<Rightarrow> difficulty" where
  "assess_difficulty question answer =
     (let t = question @ [32] @ answer;
          scores = map (\<lambda>level. (level, score level t)) levels
      in case scores of
           [] \<Rightarrow> medium
         | s # rest \<Rightarrow> fst (max_by snd s rest))"

subsection \<open>Key information\<close>

text \<open>
  The annotation result that the generator reads: the lists \<open>pathology\<close> and \<open>diagnosis\<close>
  of dictionaries with a \<open>category\<close> and a \<open>term\<close>, the list \<open>entities\<close> of dictionaries
  with a \<open>type\<close> and a \<open>text\<close>, the flag \<open>success\<close> and the text
  \<open>structured_annotation.content_summary\<close>.
\<close>

record annotation_item =
  ann_category :: ustr
  ann_term :: ustr

record entity_item =
  entity_type :: ustr
  entity_text :: ustr

record annotations =
  ann_pathology :: "annotation_item list"
  ann_diagnosis :: "annotation_item list"
  ann_entities :: "entity_item list"

record annotated_content =
  ac_success :: bool
  ac_annotations :: annotations
  content_summary :: ustr

record key_info =
  diseases :: "ustr list"
  symptoms :: "ustr list"
  treatments :: "ustr list"
  anatomy :: "ustr list"
  pathology_terms :: "ustr list"
  diagnosis_terms :: "ustr list"

text \<open>
  \<open>list(set(filter(None, xs)))\<close>: the distinct non-empty texts. The order of a Python set
  is that of its hash table; the model keeps one occurrence of each text in the order of
  the list.
\<close>

definition distinct_texts :: "ustr list \<Rightarrow> ustr list" where
  "distinct_texts xs = remdups (filter (\<lambda>x. x \<noteq> []) xs)"

text \<open>
  \<open>_extract_key_information\<close>. The categories are U+75BE U+75C5 U+5206 U+7C7B (diseases),
  U+7EC4 U+7EC7 U+5B66 U+7279 U+5F81 (pathology terms), U+4E34 U+5E8A U+8868 U+73B0
  (symptoms) and U+6CBB U+7597 (treatments).
\<close>

definition extract_key_information :: "annotations \<Rightarrow> key_info" where
  "extract_key_information anns =
     (let p = ann_pathology anns; d = ann_diagnosis anns; e = ann_entities anns;
          clinical = (\<lambda>a. contains [20020, 24202, 34920, 29616] (ann_category a));
          treatment = (\<lambda>a. contains [27835, 30103] (ann_category a))
      in \<lparr>diseases = distinct_texts
             (map ann_term (filter (\<lambda>a. ann_category a = [30142, 30149, 20998, 31867]) p) @
              map entity_text (filter (\<lambda>x. entity_type x = ascii ''disease'') e)),
          symptoms = distinct_texts (map ann_term (filter clinical d)),
          treatments = distinct_texts
             (map ann_term (filter (\<lambda>a. \<not> clinical a \<and> treatment a) d)),
          anatomy = distinct_texts
             (map entity_text (filter (\<lambda>x. entity_type x = ascii ''anatomy'') e)),
          pathology_terms = distinct_texts
             (map ann_term (filter (\<lambda>a. ann_category a = [32452, 32455, 23398, 29305, 24449]) p)),
          diagnosis_terms = distinct_texts
             (map ann_term (filter (\<lambda>a. \<not> clinical a \<and> \<not> treatment a) d))\<rparr>)"

text \<open>
  \<open>_distribute_question_types\<close>; \<open>//\<close> and \<open>%\<close> round to minus infinity, as \<open>div\<close> and
  \<open>mod\<close> do.
\<close>

definition distribute_question_types :: "int \<Rightarrow> nat \<Rightarrow> int list" where
  "distribute_question_types total_count type_count =
     (let base_count = total_count div int type_count;
          remainder = total_count mod int type_count
      in map (\<lambda>i. if int i < remainder then base_count + 1 else base_count) [0..<type_count])"

subsection \<open>Random choices\<close>

text \<open>
  The module \<open>random\<close> is a sequence of draws, \<open>R k\<close> the \<open>k\<close>-th of them; the functions
  that draw take the number of draws made so far and return it updated.
  \<open>random.choice(xs)\<close> is \<open>xs[randbelow(len(xs))]\<close>; \<open>random.shuffle\<close> swaps, for \<open>i\<close> from
  the last index down to 1, the elements at \<open>i\<close> and at \<open>randbelow(i + 1)\<close>.
\<close>

type_synonym draws = "nat \<Rightarrow> nat"

definition choice :: "draws \<Rightarrow> nat \<Rightarrow> 'a list \<Rightarrow> 'a" where
  "choice R k xs = xs ! (R k mod length xs)"

fun shuffle_from :: "draws \<Rightarrow> nat \<Rightarrow> nat \<Rightarrow> 'a list \<Rightarrow> 'a list" where
  "shuffle_from R k 0 xs = xs"
| "shuffle_from R k (Suc i) xs =
     (let j = R k mod (Suc i + 1)
      in shuffle_from R (k + 1) i (xs[Suc i := xs ! j, j := xs ! Suc i]))"

definition shuffle :: "draws \<Rightarrow> nat \<Rightarrow> 'a list \<Rightarrow> 'a list" where
  "shuffle R k xs = shuffle_from R k (length xs - 1) xs"

subsection \<open>One question and its answer\<close>

text \<open>The list \<open>entities\<close> of \<open>_select_entity_for_type\<close>, and the function itself.\<close>

fun entities_for_type :: "qtype \<Rightarrow> key_info \<Rightarrow> ustr list" where
  "entities_for_type QPathology ki = pathology_terms ki @ diseases ki"
| "entities_for_type qt ki = diseases ki"

definition select_entity_for_type :: "draws \<Rightarrow> nat \<Rightarrow> qtype \<Rightarrow> key_info \<Rightarrow> ustr option \<times> nat" where
  "select_entity_for_type R k qt ki =
     (let entities = entities_for_type qt ki
      in if entities = [] then (None, k) else (Some (choice R k entities), k + 1))"

text \<open>
  \<open>_generate_question\<close>: the template is formatted with the arguments \<open>term\<close> and
  \<open>disease\<close> first; the test \<open>'{other_disease}' in template\<close> and the second \<open>format\<close>, on
  the text that the first one returned, come after it. The default of \<open>other_disease\<close> is
  U+5176 U+4ED6 U+75BE U+75C5. \<open>None\<close> is an exception.
\<close>

definition generate_question ::
  "pylib \<Rightarrow> draws \<Rightarrow> nat \<Rightarrow> template \<Rightarrow> ustr \<Rightarrow> key_info \<Rightarrow> ustr option \<times> nat" where
  "generate_question L R k tmpl entity ki =
     (case format_template tmpl [(''term'', entity), (''disease'', entity)] of
        None \<Rightarrow> (None, k)
      | Some question \<Rightarrow>
          if Field ''other_disease'' \<in> set tmpl then
            (let other_diseases = filter (\<lambda>d. d \<noteq> entity) (diseases ki)
             in if other_diseases = []
                then (format_str L question [(''other_disease'', [20854, 20182, 30142, 30149])], k)
                else (format_str L question [(''other_disease'', choice R k other_diseases)],
                      k + 1))
          else (Some question, k))"

text \<open>
  \<open>_find_relevant_sentences\<close>: the pieces of the content between the characters U+3002,
  U+FF01 and U+FF1F that contain the entity and have more than 10 characters when
  stripped.
\<close>

definition find_relevant_sentences :: "ustr \<Rightarrow> ustr \<Rightarrow> ustr list" where
  "find_relevant_sentences entity content =
     map strip (filter (\<lambda>sentence. contains entity sentence \<and> 10 < length (strip sentence))
                       (re_split (one_of [12290, 65281, 65311]) content))"

text \<open>\<open>_generate_basic_answer\<close>: the entity followed by the fixed text of the type.\<close>

fun generate_basic_answer :: "qtype \<Rightarrow> ustr \<Rightarrow> ustr" where
  "generate_basic_answer QDefinition entity =
     entity @ [26159, 19968, 31181, 21307, 23398, 27010, 24565, 65292, 38656, 35201, 36827,
      19968, 27493, 30340, 19987, 19994, 35299, 37322, 12290]"
| "generate_basic_answer QSymptoms entity =
     entity @ [30340, 30151, 29366, 38656, 35201, 26681, 25454, 20855, 20307, 24773, 20917,
      36827, 34892, 20020, 24202, 35780, 20272, 12290]"
| "generate_basic_answer QDiagnosis entity =
     entity @ [30340, 35786, 26029, 38656, 35201, 32467, 21512, 20020, 24202, 34920, 29616,
      21644, 30456, 20851, 26816, 26597, 12290]"
| "generate_basic_answer QTreatment entity =
     entity @ [30340, 27835, 30103, 24212, 35813, 26681, 25454, 24739, 32773, 20855, 20307,
      24773, 20917, 21046, 23450, 20010, 20307, 21270, 26041, 26696, 12290]"
| "generate_basic_answer QPathology entity =
     entity @ [30340, 30149, 29702, 29305, 24449, 38656, 35201, 36890, 36807, 32452, 32455,
      23398, 26816, 26597, 30830, 23450, 12290]"
| "generate_basic_answer QDifferential entity =
     entity @ [38656, 35201, 19982, 30456, 20851, 30142, 30149, 36827, 34892, 37492, 21035,
      35786, 26029, 12290]"

text \<open>\<open>sep.join(parts)\<close>.\<close>

fun str_join :: "ustr \<Rightarrow> ustr list \<Rightarrow> ustr" where
  "str_join sep [] = []"
| "str_join sep [x] = x"
| "str_join sep (x # y # ys) = x @ sep @ str_join sep (y # ys)"

text \<open>
  The list \<open>answer_parts\<close> of \<open>_generate_answer\<close>: the lead-in of the type and the first
  two or three relevant sentences. The lead-ins end with U+662F U+6307 (definition),
  U+75C7 U+72B6 U+5305 U+62EC (symptoms), U+4E3B U+8981 U+4F9D U+636E (diagnosis),
  U+65B9 U+6CD5 U+5305 U+62EC (treatment), U+8868 U+73B0 U+4E3A (pathology) and, but for
  the first, a colon U+FF1A.
\<close>

fun answer_parts :: "qtype \<Rightarrow> ustr \<Rightarrow> ustr list \<Rightarrow> ustr list" where
  "answer_parts QDefinition entity rel = (entity @ [26159, 25351]) # take 2 rel"
| "answer_parts QSymptoms entity rel =
     (entity @ [30340, 20027, 35201, 30151, 29366, 21253, 25324, 65306]) # take 3 rel"
| "answer_parts QDiagnosis entity rel =
     (entity @ [30340, 35786, 26029, 20027, 35201, 20381, 25454, 65306]) # take 3 rel"
| "answer_parts QTreatment entity rel =
     (entity @ [30340, 27835, 30103, 26041, 27861, 21253, 25324, 65306]) # take 3 rel"
| "answer_parts QPathology entity rel =
     (entity @ [30340, 30149, 29702, 29305, 24449, 34920, 29616, 20026, 65306]) # take 2 rel"
| "answer_parts QDifferential entity rel = take 3 rel"

definition generate_answer :: "qtype \<Rightarrow> ustr \<Rightarrow> ustr \<Rightarrow> ustr" where
  "generate_answer qt entity content =
     (let relevant_sentences = find_relevant_sentences entity content
      in if relevant_sentences = [] then generate_basic_answer qt entity
         else str_join [32] (answer_parts qt entity relevant_sentences))"

text \<open>
  \<open>_extract_keywords\<close>: the matches of at least two characters of three patterns of the
  same shape as those of the cleaner, with the alternatives U+75C5, U+75C7, U+764C,
  U+7624, U+708E; U+8BCA U+65AD, U+6CBB U+7597, U+68C0 U+67E5, U+624B U+672F; U+7EC6 U+80DE,
  U+7EC4 U+7EC7, U+5668 U+5B98, U+7CFB U+7EDF. \<open>list(set(keywords))[:10]\<close> is modelled as
  the first ten distinct matches.
\<close>

definition keyword_patterns :: "ustr list list" where
  "keyword_patterns =
     [[[30149], [30151], [30284], [30244], [28814]],
      [[35786, 26029], [27835, 30103], [26816, 26597], [25163, 26415]],
      [[32454, 32990], [32452, 32455], [22120, 23448], [31995, 32479]]]"

definition extract_keywords :: "ustr \<Rightarrow> ustr \<Rightarrow> ustr list" where
  "extract_keywords question answer =
     (let t = question @ [32] @ answer
      in take 10 (remdups (concat (map (\<lambda>pattern.
           filter (\<lambda>m. 2 \<le> length m) (re_findall (term_pattern pattern) t)) keyword_patterns))))"

text \<open>\<open>s.split()\<close>: the maximal runs of characters that are not white space.\<close>

fun split_ws_from :: "ustr \<Rightarrow> ustr \<Rightarrow> ustr list" where
  "split_ws_from cur [] = (if cur = [] then [] else [cur])"
| "split_ws_from cur (c # cs) =
     (if is_space c then (if cur = [] then split_ws_from [] cs else cur # split_ws_from [] cs)
      else split_ws_from (cur @ [c]) cs)"

definition split_ws :: "ustr \<Rightarrow> ustr list" where
  "split_ws s = split_ws_from [] s"

text \<open>
  \<open>_calculate_qa_quality\<close>. The marks of a question are U+FF1F and \<open>?\<close>, its words
  U+4EC0 U+4E48, U+5982 U+4F55, U+54EA U+4E9B, U+600E U+6837; the words of an answer are
  U+5305 U+62EC, U+8868 U+73B0 U+4E3A, U+4E3B U+8981, U+9700 U+8981.
\<close>

definition calculate_qa_quality :: "ustr \<Rightarrow> ustr \<Rightarrow> real" where
  "calculate_qa_quality question answer =
     (let s1 = (if 5 \<le> length question then 20 else 0);
          s2 = (if contains [65311] question \<or> contains [63] question then 10 else 0);
          s3 = (if list_ex (\<lambda>w. contains w question)
                     [[20160, 20040], [22914, 20309], [21738, 20123], [24590, 26679]]
                then 20 else 0);
          s4 = (if 20 \<le> length answer then 20 else 0);
          s5 = (if 5 \<le> length (split_ws answer) then 15 else 0);
          s6 = (if list_ex (\<lambda>w. contains w answer)
                     [[21253, 25324], [34920, 29616, 20026], [20027, 35201], [38656, 35201]]
                then 15 else 0)
      in min ((s1 + s2 + s3 + s4 + s5 + s6) / 100) 1)"

subsection \<open>The pairs of a type\<close>

record qa_pair =
  qa_id :: ustr
  qa_question :: ustr
  qa_answer :: ustr
  qa_type :: qtype
  qa_difficulty :: difficulty
  qa_keywords :: "ustr list"
  qa_entity :: ustr
  qa_quality_score :: real

text \<open>
  The body of the loop of \<open>_generate_qa_by_type\<close> on the list \<open>qa_pairs\<close> built so far and
  the number of draws made: no pair is added when no entity is selected (\<open>continue\<close>) or
  when the body raises (\<open>except Exception: continue\<close>), which only \<open>_generate_question\<close>
  can do.
\<close>

definition qa_iteration ::
  "pylib \<Rightarrow> draws \<Rightarrow> qtype \<Rightarrow> key_info \<Rightarrow> ustr \<Rightarrow> qa_pair list \<times> nat \<Rightarrow> qa_pair list \<times> nat" where
  "qa_iteration L R qt ki content st =
     (case st of (qa_pairs, k) \<Rightarrow>
        (case select_entity_for_type R k qt ki of
           (None, k1) \<Rightarrow> (qa_pairs, k1)
         | (Some entity, k1) \<Rightarrow>
             if entity = [] then (qa_pairs, k1)
             else (case generate_question L R (k1 + 1)
                          (choice R k1 (question_templates qt)) entity ki of
                     (None, k2) \<Rightarrow> (qa_pairs, k2)
                   | (Some question, k2) \<Rightarrow>
                       (let answer = generate_answer qt entity content
                        in (qa_pairs @
                              [\<lparr>qa_id = ascii ''qa_'' @ decimal (length qa_pairs + 1),
                                qa_question = question,
                                qa_answer = answer,
                                qa_type = qt,
                                qa_difficulty = assess_difficulty question answer,
                                qa_keywords = extract_keywords question answer,
                                qa_entity = entity,
                                qa_quality_score = calculate_qa_quality question answer\<rparr>],
                            k2)))))"

text \<open>\<open>_generate_qa_by_type\<close>: \<open>range(count)\<close> is empty for a negative count.\<close>

definition generate_qa_by_type ::
  "pylib \<Rightarrow> draws \<Rightarrow> nat \<Rightarrow> qtype \<Rightarrow> key_info \<Rightarrow> ustr \<Rightarrow> int \<Rightarrow> qa_pair list \<times> nat" where
  "generate_qa_by_type L R k qt ki content n =
     (qa_iteration L R qt ki content ^^ nat n) ([], k)"

subsection \<open>The data set\<close>

text \<open>The loop over \<open>zip(question_types, type_counts)\<close>, which extends \<open>qa_pairs\<close>.\<close>

fun generate_types ::
  "pylib \<Rightarrow> draws \<Rightarrow> key_info \<Rightarrow> ustr \<Rightarrow> (qtype \<times> int) list \<Rightarrow> nat \<Rightarrow> qa_pair list \<times> nat" where
  "generate_types L R ki content [] k = ([], k)"
| "generate_types L R ki content ((qt, n) # rest) k =
     (case generate_qa_by_type L R k qt ki content n of
        (pairs, k1) \<Rightarrow>
          (case generate_types L R ki content rest k1 of
             (others, k2) \<Rightarrow> (pairs @ others, k2)))"

text \<open>The slice \<open>xs[:n]\<close>; a negative \<open>n\<close> drops the last \<open>-n\<close> elements.\<close>

definition py_take :: "int \<Rightarrow> 'a list \<Rightarrow> 'a list" where
  "py_take n xs = (if 0 \<le> n then take (nat n) xs else take (length xs - nat (- n)) xs)"

text \<open>\<open>_normalize_question\<close>: \<open>re.sub(r'[^\w]', '', question.lower())\<close>.\<close>

definition normalize_question :: "pylib \<Rightarrow> ustr \<Rightarrow> ustr" where
  "normalize_question L question = filter (is_word L) (str_lower L question)"

text \<open>
  \<open>_optimize_qa_pairs\<close>: a stable sort by descending quality, then the first pair of
  each normalized question; \<open>seen\<close> is the set \<open>seen_questions\<close>.
\<close>

fun unique_from :: "pylib \<Rightarrow> ustr list \<Rightarrow> qa_pair list \<Rightarrow> qa_pair list" where
  "unique_from L seen [] = []"
| "unique_from L seen (p # ps) =
     (let question_key = normalize_question L (qa_question p)
      in if question_key \<in> set seen then unique_from L seen ps
         else p # unique_from L (question_key # seen) ps)"

definition optimize_qa_pairs :: "pylib \<Rightarrow> qa_pair list \<Rightarrow> qa_pair list" where
  "optimize_qa_pairs L qa_pairs =
     unique_from L [] (sort_key (\<lambda>p. - qa_quality_score p) qa_pairs)"

text \<open>
  Steps 1 and 2 of \<open>generate_qa_dataset\<close>: the pairs of all types before they are
  shuffled, and the number of draws made.
\<close>

definition generated_pairs ::
  "pylib \<Rightarrow> draws \<Rightarrow> annotated_content \<Rightarrow> int \<Rightarrow> qa_pair list \<times> nat" where
  "generated_pairs L R ac qa_count =
     generate_types L R (extract_key_information (ac_annotations ac)) (content_summary ac)
       (zip question_types (distribute_question_types qa_count (length question_types))) 0"

text \<open>
  \<open>generate_qa_dataset\<close>. An input without \<open>success\<close> raises the \<open>ValueError\<close>, which the
  function turns into the failure result. The statistics and quality metrics of the
  result, which are computed from the pairs returned and do not change them, and the
  time stamp are left out.
\<close>

datatype generation_error = ValueError_invalid_annotation

record generation_result =
  gr_success :: bool
  gr_error :: "generation_error option"
  gr_qa_pairs :: "qa_pair list"

definition generate_qa_dataset ::
  "pylib \<Rightarrow> draws \<Rightarrow> annotated_content \<Rightarrow> int \<Rightarrow> generation_result" where
  "generate_qa_dataset L R ac qa_count =
     (if \<not> ac_success ac
      then \<lparr>gr_success = False, gr_error = Some ValueError_invalid_annotation, gr_qa_pairs = []\<rparr>
      else (case generated_pairs L R ac qa_count of
              (qa_pairs, k) \<Rightarrow>
                \<lparr>gr_success = True, gr_error = None,
                 gr_qa_pairs = optimize_qa_pairs L (py_take qa_count (shuffle R k qa_pairs))\<rparr>))"

subsection \<open>Concrete annotation lists\<close>

text \<open>
  Three annotations over a text: U+4E73 U+817A at \<open>[0, 2)\<close> with confidence 0.7, then
  U+817A U+764C at \<open>[1, 3)\<close> with confidence 0.9, which overlaps the first and replaces
  it, then U+708E U+75C7 at \<open>[5, 7)\<close>.
\<close>

definition ex_replace :: "MedicalAnnotation list" where
  "ex_replace =
    [\<lparr>text_of = [20083, 33146], start_pos = 0, end_pos = 2, annotation_type = ANATOMY,
       confidence = 0.7, metadata = []\<rparr>,
     \<lparr>text_of = [33146, 30284], start_pos = 1, end_pos = 3, annotation_type = DISEASE,
       confidence = 0.9, metadata = []\<rparr>,
     \<lparr>text_of = [28814, 30151], start_pos = 5, end_pos = 7, annotation_type = DISEASE,
       confidence = 0.9, metadata = []\<rparr>]"

text \<open>
  The dictionary matches of the text U+817A U+764C U+708E U+75C7: the disease terms
  U+817A U+764C at \<open>[0, 2)\<close> and U+708E U+75C7 at \<open>[2, 4)\<close>, both with the dictionary
  confidence 0.9. The spans are adjacent and share no character.
\<close>

definition ex_adjacent :: "MedicalAnnotation list" where
  "ex_adjacent =
    [\<lparr>text_of = [33146, 30284], start_pos = 0, end_pos = 2, annotation_type = DISEASE,
       confidence = 0.9, metadata = []\<rparr>,
     \<lparr>text_of = [28814, 30151], start_pos = 2, end_pos = 4, annotation_type = DISEASE,
       confidence = 0.9, metadata = []\<rparr>]"

subsection \<open>Concrete inputs of the cleaner\<close>

text \<open>
  The scenario text: U+7B2C, the digit 3, U+9875 (a page marker), a space, a sentence of
  nine characters that ends in U+3002, and a sentence of eight characters that ends in
  U+3002. \<open>sentence_2\<close> ends in the key word U+75C7 U+72B6. \<open>scenario_cleaned\<close> is the
  text without the page marker and the space.
\<close>

definition scenario_text :: ustr where
  "scenario_text =
    [31532, 51, 39029, 32,
     32954, 30284, 26159, 24120, 35265, 24694, 24615, 32959, 30244, 12290,
     24739, 32773, 20986, 29616, 21683, 22013, 30151, 29366, 12290]"

definition sentence_1 :: ustr where
  "sentence_1 = [32954, 30284, 26159, 24120, 35265, 24694, 24615, 32959, 30244]"

definition sentence_2 :: ustr where
  "sentence_2 = [24739, 32773, 20986, 29616, 21683, 22013, 30151, 29366]"

definition scenario_cleaned :: ustr where
  "scenario_cleaned =
    [32954, 30284, 26159, 24120, 35265, 24694, 24615, 32959, 30244, 12290,
     24739, 32773, 20986, 29616, 21683, 22013, 30151, 29366, 12290]"

text \<open>A file system with one file, named \<open>f\<close>, which holds \<open>sentence_2\<close>.\<close>

definition ex_fs :: filesystem where
  "ex_fs = (\<lambda>path. if path = [102] then Some (Readable sentence_2) else None)"

subsection \<open>Concrete inputs of the integrator\<close>

text \<open>
  A library whose \<open>json.loads\<close> rejects every string; a data set of two pairs with the
  questions \<open>Q1\<close>, \<open>Q2\<close> and the answers \<open>A1\<close>, \<open>A2\<close>; a client that accepts every document
  with status 201.
\<close>

definition ex_lib :: pylib where
  "ex_lib = \<lparr>json_loads = (\<lambda>s. None), py_str = (\<lambda>v. []), str_lower = (\<lambda>s. s),
              is_word = (\<lambda>c. True), format_str = (\<lambda>s args. Some s)\<rparr>"

definition ex_pair :: "ustr \<Rightarrow> ustr \<Rightarrow> jvalue" where
  "ex_pair q a = JDict [(ascii ''question'', JStr q), (ascii ''answer'', JStr a)]"

definition ex_dataset :: "jvalue list" where
  "ex_dataset = [ex_pair [81, 49] [65, 49], ex_pair [81, 50] [65, 50]]"

definition ex_client :: bulk_client where
  "ex_client = (\<lambda>index_name operations.
     Inr \<lparr>errors = False,
          items = map (\<lambda>op. IndexItem (Some 201) False)
                      (filter (\<lambda>op. case op of Source d \<Rightarrow> True | _ \<Rightarrow> False) operations)\<rparr>)"

subsection \<open>Concrete inputs of the generator\<close>

text \<open>
  Two pairs that the generator builds for the disease U+80BA U+764C. The first one is the
  third template of \<open>definition\<close> with the basic answer; no key word of any level
  occurs in it. The second one is the second template of \<open>definition\<close> with the answer
  composed from the content U+80BA U+764C U+7684 U+53D1 U+75C5 U+673A U+5236 U+5C1A U+672A
  U+5B8C U+5168 U+9610 U+660E U+3002; it has the key word U+5B9A U+4E49 of \<open>easy\<close> and the
  key word U+673A U+5236 of \<open>hard\<close>.
\<close>

definition plain_question :: ustr where
  "plain_question = [35831, 35299, 37322, 32954, 30284, 30340, 21547, 20041, 12290]"

definition plain_answer :: ustr where
  "plain_answer =
     [32954, 30284, 26159, 19968, 31181, 21307, 23398, 27010, 24565, 65292, 38656, 35201,
      36827, 19968, 27493, 30340, 19987, 19994, 35299, 37322, 12290]"

definition tie_question :: ustr where
  "tie_question = [32954, 30284, 30340, 23450, 20041, 26159, 20160, 20040, 65311]"

definition tie_answer :: ustr where
  "tie_answer =
     [32954, 30284, 26159, 25351, 32, 32954, 30284, 30340, 21457, 30149, 26426, 21046, 23578,
      26410, 23436, 20840, 38416, 26126]"

text \<open>
  An annotation result whose only entry is the entity U+80BA U+764C of type \<open>disease\<close>,
  with an empty content summary, and a random source whose every draw is 1: each choice
  among the four templates of a type takes the second one.
\<close>

definition ex_annotated :: annotated_content where
  "ex_annotated =
     \<lparr>ac_success = True,
      ac_annotations =
        \<lparr>ann_pathology = [], ann_diagnosis = [],
         ann_entities = [\<lparr>entity_type = ascii ''disease'', entity_text = [32954, 30284]\<rparr>]\<rparr>,
      content_summary = []\<rparr>"

definition ex_draws :: draws where
  "ex_draws = (\<lambda>k. 1)"

text \<open>
  \<open>str.lower\<close> and the class \<open>\w\<close> on the texts of the example, which consist of CJK
  unified ideographs (U+4E00 to U+9FFF, word characters without case) and the punctuation
  marks U+FF1F and U+3002: the upper case letters of ASCII are lowered; the letters and
  digits of ASCII, the underscore and the ideographs are word characters.
\<close>

definition qa_lib :: pylib where
  "qa_lib =
     \<lparr>json_loads = (\<lambda>s. None), py_str = (\<lambda>v. []),
      str_lower = map (\<lambda>c. if 65 \<le> c \<and> c \<le> 90 then c + 32 else c),
      is_word = (\<lambda>c. (48 \<le> c \<and> c \<le> 57) \<or> (65 \<le> c \<and> c \<le> 90) \<or> c = 95 \<or>
                      (97 \<le> c \<and> c \<le> 122) \<or> (19968 \<le> c \<and> c \<le> 40959)),
      format_str = (\<lambda>s args. None)\<rparr>"

section \<open>Properties of the overlap merge\<close>

subsection \<open>The invariant of the scan\<close>

lemma sorted_key_butlast:
  "sorted (map pos_key (xs @ ys)) \<Longrightarrow> xs \<noteq> [] \<Longrightarrow> sorted (map pos_key (butlast xs @ ys))"
proof -
  assume s: "sorted (map pos_key (xs @ ys))" and ne: "xs \<noteq> []"
  from ne have "xs = butlast xs @ [last xs]" by simp
  then have "sorted (map pos_key (butlast xs @ [last xs] @ ys))" using s by (metis append_assoc)
  then show ?thesis by (auto simp: sorted_append)
qed

lemma start_le_of_sorted_key:
  assumes "sorted (map pos_key (xs @ c # ys))" and "m \<in> set xs"
  shows "start_pos m \<le> start_pos c"
proof -
  from assms have "pos_key m \<le> pos_key c" by (auto simp: sorted_append)
  then show ?thesis by (auto simp: pos_key_def less_eq_prod_def)
qed

lemma merge_step_invariant:
  assumes sep: "separated merged"
    and srt: "sorted (map pos_key (merged @ c # rest))"
  shows "separated (merge_step merged c) \<and> sorted (map pos_key (merge_step merged c @ rest))"
proof (cases "merged = []")
  case True
  with srt show ?thesis by (simp add: merge_step_def separated_def)
next
  case False
  define l where "l = last merged"
  define bl where "bl = butlast merged"
  have m: "merged = bl @ [l]" using False by (simp add: l_def bl_def)
  have sep_bl: "separated bl" and bl_l: "\<forall>a\<in>set bl. end_pos a < start_pos l"
    using sep unfolding m separated_def by (auto simp: sorted_wrt_append)
  have l_c: "start_pos l \<le> start_pos c"
    using start_le_of_sorted_key [OF srt, of l] m by simp
  have bl_c: "\<forall>a\<in>set bl. end_pos a < start_pos c"
    using bl_l l_c by fastforce
  have srt_drop: "sorted (map pos_key (bl @ c # rest))"
    using sorted_key_butlast [OF srt False] by (simp add: bl_def)
  have srt_keep: "sorted (map pos_key (merged @ rest))"
    using srt by (auto simp: sorted_append)
  have srt_app: "sorted (map pos_key ((merged @ [c]) @ rest))"
    using srt by simp
  have sep_repl: "separated (bl @ [c])"
    using sep_bl bl_c by (simp add: separated_def sorted_wrt_append)
  have sep_app: "end_pos l < start_pos c \<Longrightarrow> separated (merged @ [c])"
    using sep bl_c unfolding m separated_def by (auto simp: sorted_wrt_append)
  show ?thesis
    using False sep srt_drop srt_keep srt_app sep_repl sep_app
    by (auto simp: merge_step_def Let_def l_def [symmetric] bl_def [symmetric] not_le)
qed

lemma foldl_merge_step_invariant:
  "separated merged \<Longrightarrow> sorted (map pos_key (merged @ rest)) \<Longrightarrow>
   separated (foldl merge_step merged rest) \<and> sorted (map pos_key (foldl merge_step merged rest))"
proof (induction rest arbitrary: merged)
  case Nil
  then show ?case by simp
next
  case (Cons c rest)
  from merge_step_invariant [OF Cons.prems]
  show ?case using Cons.IH [of "merge_step merged c"] by simp
qed

lemma merge_separated_sorted:
  "separated (merge_overlapping_annotations xs) \<and>
   sorted (map pos_key (merge_overlapping_annotations xs))"
proof (cases "xs = []")
  case True
  then show ?thesis by (simp add: merge_overlapping_annotations_def separated_def)
next
  case False
  have "separated []" by (simp add: separated_def)
  moreover have "sorted (map pos_key ([] @ sort_key pos_key xs))" by simp
  ultimately show ?thesis
    using foldl_merge_step_invariant [of "[]" "sort_key pos_key xs"] False
    by (simp add: merge_overlapping_annotations_def)
qed

lemma ex_replace_merged:
  "merge_overlapping_annotations ex_replace = [ex_replace ! 1, ex_replace ! 2]"
  by (simp add: merge_overlapping_annotations_def ex_replace_def merge_step_def pos_key_def
      less_eq_prod_def)

subsection \<open>No two merged annotations overlap\<close>

text \<open>
  Claim C1. For every input list of annotations, no two annotations at different positions
  of the merged output overlap, that is, satisfy \<open>a.start_pos < b.end_pos\<close> and
  \<open>b.start_pos < a.end_pos\<close>. The invariant of the scan gives more: a later element
  starts strictly after the end of every earlier one, also after a kept annotation has been
  replaced by an overlapping one of higher confidence.
\<close>

theorem merged_no_overlap:
  assumes "i < length (merge_overlapping_annotations xs)"
    and "j < length (merge_overlapping_annotations xs)"
    and "i \<noteq> j"
  shows "\<not> overlaps (merge_overlapping_annotations xs ! i) (merge_overlapping_annotations xs ! j)"
proof -
  let ?M = "merge_overlapping_annotations xs"
  have sep: "sorted_wrt (\<lambda>a b. end_pos a < start_pos b) ?M"
    using merge_separated_sorted [of xs] by (simp add: separated_def)
  have lt: "\<not> overlaps (?M ! p) (?M ! q) \<and> \<not> overlaps (?M ! q) (?M ! p)"
    if "p < q" "q < length ?M" for p q
  proof -
    have "end_pos (?M ! p) < start_pos (?M ! q)"
      using sorted_wrt_nth_less [OF sep that] .
    then show ?thesis by (simp add: overlaps_def)
  qed
  from assms(3) consider "i < j" | "j < i" by linarith
  then show ?thesis
    using lt [of i j] lt [of j i] assms(1,2) by cases simp_all
qed

text \<open>
  The theorem at \<open>ex_replace\<close>, where the second annotation overlaps the kept first one,
  has the higher confidence and replaces it.
\<close>

theorem merged_no_overlap_witness:
  "(0::nat) < length (merge_overlapping_annotations ex_replace) \<and>
   (1::nat) < length (merge_overlapping_annotations ex_replace) \<and>
   start_pos (ex_replace ! 1) \<le> end_pos (ex_replace ! 0) \<and>
   confidence (ex_replace ! 1) > confidence (ex_replace ! 0) \<and>
   merge_overlapping_annotations ex_replace = [ex_replace ! 1, ex_replace ! 2] \<and>
   \<not> overlaps (merge_overlapping_annotations ex_replace ! 0)
       (merge_overlapping_annotations ex_replace ! 1)"
  using merged_no_overlap [of 0 ex_replace 1]
  by (simp add: ex_replace_merged) (simp add: ex_replace_def)

subsection \<open>Idempotence\<close>

lemma foldl_merge_step_separated:
  "separated (acc @ xs) \<Longrightarrow> foldl merge_step acc xs = acc @ xs"
proof (induction xs arbitrary: acc)
  case Nil
  then show ?case by simp
next
  case (Cons x xs)
  have "merge_step acc x = acc @ [x]"
  proof (cases "acc = []")
    case True
    then show ?thesis by (simp add: merge_step_def)
  next
    case False
    then have "last acc \<in> set acc" by simp
    then have "end_pos (last acc) < start_pos x"
      using Cons.prems by (auto simp: separated_def sorted_wrt_append)
    then show ?thesis using False by (simp add: merge_step_def Let_def)
  qed
  then show ?case using Cons.IH [of "acc @ [x]"] Cons.prems by simp
qed

text \<open>
  Claim C9. The overlap merge is idempotent: merging a list that the merge has produced
  returns that list unchanged. The output is sorted by \<open>(start_pos, end_pos)\<close>, so the
  stable sort leaves it as it is, and every element starts after the end of the one before
  it, so the scan appends each of them.
\<close>

theorem merge_idempotent:
  "merge_overlapping_annotations (merge_overlapping_annotations xs) =
   merge_overlapping_annotations xs"
proof -
  let ?M = "merge_overlapping_annotations xs"
  have sep: "separated ?M" and srt: "sorted (map pos_key ?M)"
    using merge_separated_sorted [of xs] by simp_all
  have "sort_key pos_key ?M = ?M" using srt by (rule sort_key_id_if_sorted)
  moreover have "foldl merge_step [] ?M = ?M"
    using foldl_merge_step_separated [of "[]" ?M] sep by simp
  ultimately show ?thesis
    by (simp add: merge_overlapping_annotations_def [of ?M])
qed

subsection \<open>Adjacent spans\<close>

text \<open>
  Claim C6 says that an annotation is discarded only when its start lies inside the
  half-open span of the previous kept annotation, so that two adjacent annotations are both
  retained. The scan tests \<open>current.start_pos <= last.end_pos\<close>: an annotation that starts
  exactly where the previous one ends is treated as overlapping. At \<open>ex_adjacent\<close> the two
  spans do not overlap, the second starts where the first ends, and the merge returns the
  first annotation only.
\<close>

theorem adjacent_annotation_dropped:
  "\<not> overlaps (ex_adjacent ! 0) (ex_adjacent ! 1) \<and>
   start_pos (ex_adjacent ! 1) = end_pos (ex_adjacent ! 0) \<and>
   merge_overlapping_annotations ex_adjacent = [ex_adjacent ! 0]"
  by (simp add: merge_overlapping_annotations_def ex_adjacent_def merge_step_def pos_key_def
      less_eq_prod_def overlaps_def)

section \<open>Properties of the text cleaner\<close>

subsection \<open>Cleaning never lengthens the text; the quality score is in the unit interval\<close>

lemma length_re_sub:
  "length rep \<le> 1 \<Longrightarrow> length (re_sub r rep s) \<le> length s"
proof (induction r rep s rule: re_sub.induct)
  case (1 r rep)
  then show ?case by simp
next
  case (2 r rep c cs)
  show ?case
  proof (cases "match_at r (c # cs)")
    case None
    with 2 show ?thesis by simp
  next
    case (Some n)
    show ?thesis
    proof (cases "0 < n")
      case True
      have "length (re_sub r rep (drop n (c # cs))) \<le> length (drop n (c # cs))"
        using "2.IH" Some True "2.prems" by blast
      also have "\<dots> \<le> length cs" using True by simp
      finally show ?thesis using Some True "2.prems" by simp
    next
      case False
      with 2 Some show ?thesis by simp
    qed
  qed
qed

lemma length_foldl_re_sub:
  "length (foldl (\<lambda>cleaned pattern. re_sub pattern [32] cleaned) t ps) \<le> length t"
proof (induction ps arbitrary: t)
  case Nil
  then show ?case by simp
next
  case (Cons p ps)
  have "length (foldl (\<lambda>cleaned pattern. re_sub pattern [32] cleaned) (re_sub p [32] t) ps)
        \<le> length (re_sub p [32] t)"
    by (rule Cons.IH)
  also have "\<dots> \<le> length t" by (rule length_re_sub) simp
  finally show ?case by simp
qed

lemma length_strip: "length (strip s) \<le> length s"
proof -
  have "length (strip s) \<le> length (dropWhile is_space s)"
    unfolding strip_def using length_dropWhile_le [of is_space "rev (dropWhile is_space s)"]
    by simp
  also have "\<dots> \<le> length s" by (rule length_dropWhile_le)
  finally show ?thesis .
qed

lemma length_remove_noise: "length (remove_noise text) \<le> length text"
proof -
  let ?a = "foldl (\<lambda>cleaned pattern. re_sub pattern [32] cleaned) text noise_patterns"
  let ?b = "re_sub (Plus (Cls is_space)) [32] ?a"
  have "length (strip ?b) \<le> length ?b" by (rule length_strip)
  also have "\<dots> \<le> length ?a" by (rule length_re_sub) simp
  also have "\<dots> \<le> length text" by (rule length_foldl_re_sub)
  finally show ?thesis by (simp add: remove_noise_def Let_def)
qed

lemma length_normalize_format: "length (normalize_format text) \<le> length text"
proof -
  have step: "length (re_sub r [c] s) \<le> length s" for r c s
    by (rule length_re_sub) simp
  show ?thesis
    unfolding normalize_format_def Let_def
    by (meson step order_trans)
qed

lemma round2_range:
  assumes "0 \<le> x" and "x \<le> 1"
  shows "0 \<le> round2 x \<and> round2 x \<le> 1"
proof -
  define y where "y = x * 100"
  define f where "f = \<lfloor>y\<rfloor>"
  have y: "0 \<le> y" "y \<le> 100" using assms by (simp_all add: y_def)
  have f0: "0 \<le> f" using y(1) by (simp add: f_def)
  have f100: "f \<le> 100" using y(2) unfolding f_def by (simp add: floor_le_iff)
  have up: "f + 1 \<le> 100" if "0 < y - of_int f"
  proof -
    from that have "of_int f < y" by simp
    with y(2) have "of_int f < (100::real)" by linarith
    then have "f < 100" by linarith
    then show ?thesis by simp
  qed
  define k where "k = (if y - of_int f < 1 / 2 then f else if 1 / 2 < y - of_int f then f + 1
              else if even f then f else f + 1)"
  have k0: "0 \<le> k" using f0 by (simp add: k_def)
  have k100: "k \<le> 100"
  proof (cases "y - of_int f < 1 / 2")
    case True
    then show ?thesis using f100 by (simp add: k_def)
  next
    case False
    then have "0 < y - of_int f" by linarith
    from up [OF this] f100 show ?thesis by (simp add: k_def)
  qed
  have r: "round2 x = of_int k / 100"
    by (simp add: round2_def Let_def y_def [symmetric] f_def [symmetric] k_def)
  have "(0::real) \<le> of_int k" using k0 by simp
  moreover have "of_int k \<le> (100::real)" using k100 by linarith
  ultimately show ?thesis unfolding r by simp
qed

lemma structure_score_nonneg:
  "0 \<le> sum_list (map (\<lambda>indicator. if contains indicator text then (10::real) else 0) ws)"
  by (induction ws) simp_all

lemma assess_quality_range:
  "0 \<le> assess_quality t terms \<and> assess_quality t terms \<le> 1"
proof -
  define a where "a = min (real (length t) / 1000 * 30) 30"
  define b where
    "b = min (real (sum_list (map (\<lambda>(category, ts). length ts) terms)) / 20 * 40) 40"
  define c where
    "c = min (sum_list (map (\<lambda>indicator. if contains indicator t then (10::real) else 0)
                        structure_indicators)) 30"
  have a: "0 \<le> a" "a \<le> 30" by (simp_all add: a_def)
  have b: "0 \<le> b" "b \<le> 40" by (simp_all add: b_def)
  have c: "0 \<le> c" "c \<le> 30" using structure_score_nonneg [of t structure_indicators]
    by (simp_all add: c_def)
  have q: "assess_quality t terms = round2 ((a + b + c) / 100)"
    by (simp add: assess_quality_def Let_def a_def b_def c_def)
  have "0 \<le> (a + b + c) / 100" using a b c by simp
  moreover have "(a + b + c) / 100 \<le> 1" using a b c by simp
  ultimately show ?thesis unfolding q by (rule round2_range)
qed

text \<open>
  Claim C4. For every input text \<open>T\<close>, the cleaned text is at most as long as \<open>T\<close>, and
  the quality score lies in the interval from 0 to 1. Every substitution of the cleaner
  replaces a match of at least one character by one character, and stripping only removes
  characters; the three parts of the score are capped at 30, 40 and 30.
\<close>

theorem clean_length_and_quality:
  "length (cleaned_text (clean_medical_text T)) \<le> length T \<and>
   0 \<le> quality_score (clean_medical_text T) \<and> quality_score (clean_medical_text T) \<le> 1"
proof -
  have "length (normalize_format (remove_noise T)) \<le> length (remove_noise T)"
    by (rule length_normalize_format)
  also have "\<dots> \<le> length T" by (rule length_remove_noise)
  finally have len: "length (cleaned_text (clean_medical_text T)) \<le> length T"
    by (simp add: clean_medical_text_def Let_def)
  have "quality_score (clean_medical_text T) =
        assess_quality (normalize_format (remove_noise T))
          (extract_medical_terms (normalize_format (remove_noise T)))"
    by (simp add: clean_medical_text_def Let_def)
  with assess_quality_range len show ?thesis by simp
qed

subsection \<open>The scenario text\<close>

lemma cleaned_text_eq:
  "cleaned_text (clean_medical_text T) = normalize_format (remove_noise T)"
  by (simp add: clean_medical_text_def Let_def)

lemma segments_eq:
  "segments (clean_medical_text T) = segment_text (normalize_format (remove_noise T))"
  by (simp add: clean_medical_text_def Let_def)

lemma scenario_page_marker:
  "re_sub page_pattern [32] scenario_text = 32 # drop 3 scenario_text"
  by (simp add: scenario_text_def page_pattern_def Plus_def match_at_def is_space_def
      is_digit_def nd_ranges_def)

lemma scenario_remove_noise:
  "remove_noise scenario_text = scenario_cleaned"
  by (simp add: remove_noise_def noise_patterns_def scenario_text_def reference_pattern_def
      page_pattern_def Plus_def AtLeast3_def match_at_def is_space_def is_digit_def
      nd_ranges_def strip_def scenario_cleaned_def)

lemma scenario_normalize_format:
  "normalize_format scenario_cleaned = scenario_cleaned"
  by (simp add: normalize_format_def one_of_def match_at_def scenario_cleaned_def)

lemma scenario_split:
  "re_split (one_of [12290, 65281, 65311]) scenario_cleaned = [sentence_1, sentence_2, []]"
  by (simp add: re_split_def one_of_def match_at_def scenario_cleaned_def sentence_1_def
      sentence_2_def)

lemma scenario_segments_from:
  "segments_from 0 [sentence_1, sentence_2, []] = []"
proof -
  have "strip sentence_1 = sentence_1" "strip sentence_2 = sentence_2" "strip [] = []"
    by (simp_all add: strip_def is_space_def sentence_1_def sentence_2_def)
  moreover have "length sentence_1 < 10" "length sentence_2 < 10"
    by (simp_all add: sentence_1_def sentence_2_def)
  ultimately show ?thesis by (simp add: Let_def)
qed

lemma scenario_segments: "segments (clean_medical_text scenario_text) = []"
  by (simp only: segments_eq scenario_remove_noise scenario_normalize_format segment_text_def
      scenario_split scenario_segments_from)

text \<open>
  Claim C5 says that for the scenario text the list of segments has exactly two entries.
  Both sentences are shorter than the ten characters that \<open>_segment_text\<close> asks of a
  segment, so the list is empty.
\<close>

theorem scenario_two_segments_counterexample:
  "length (segments (clean_medical_text scenario_text)) \<noteq> 2"
  by (simp add: scenario_segments)

text \<open>
  Claim C5, amended. For the scenario text the page pattern replaces the page marker by a
  space, the cleaned text consists of the two sentences, each followed by U+3002, the list
  of segments is empty, since the sentences have nine and eight characters, and
  \<open>_classify_segment\<close> gives the second sentence the type symptoms.
\<close>

theorem scenario_cleaning:
  "re_sub page_pattern [32] scenario_text = 32 # drop 3 scenario_text \<and>
   cleaned_text (clean_medical_text scenario_text) = scenario_cleaned \<and>
   scenario_cleaned = sentence_1 @ [12290] @ sentence_2 @ [12290] \<and>
   length sentence_1 = 9 \<and> length sentence_2 = 8 \<and>
   segments (clean_medical_text scenario_text) = [] \<and>
   classify_segment sentence_2 = Symptoms"
proof -
  have "classify_segment sentence_2 = Symptoms"
    by (simp add: classify_segment_def sentence_2_def match_at_def)
  moreover have "length sentence_1 = 9 \<and> length sentence_2 = 8"
    by (simp add: sentence_1_def sentence_2_def)
  moreover have "scenario_cleaned = sentence_1 @ [12290] @ sentence_2 @ [12290]"
    by (simp add: scenario_cleaned_def sentence_1_def sentence_2_def)
  ultimately show ?thesis
    using scenario_page_marker scenario_segments
    by (simp add: cleaned_text_eq scenario_remove_noise scenario_normalize_format)
qed

section \<open>Properties of the tool \<open>medical_data_cleaner\<close>\<close>

lemma supplied_zero: "supplied t f b = 0 \<longleftrightarrow> t = [] \<and> f = [] \<and> b = []"
  by (simp add: supplied_def)

text \<open>
  Claim C8, amended. The tool returns the validation error exactly when none of the three
  arguments is supplied. When more than one is supplied the call is processed:
  \<open>batch_file_paths\<close> takes precedence over \<open>file_path\<close>, which takes precedence over
  \<open>text_content\<close>, and the arguments of lower precedence are ignored.
\<close>

theorem cleaner_input_priority:
  "(supplied t f b = 0 \<longleftrightarrow> medical_data_cleaner fs t f b = ErrorResult ValueError_no_input) \<and>
   (b \<noteq> [] \<longrightarrow> medical_data_cleaner fs t f b = medical_data_cleaner fs [] [] b) \<and>
   (f \<noteq> [] \<longrightarrow> medical_data_cleaner fs t f [] = medical_data_cleaner fs [] f [])"
proof -
  have "medical_data_cleaner fs t f b \<noteq> ErrorResult ValueError_no_input"
    if "t \<noteq> [] \<or> f \<noteq> [] \<or> b \<noteq> []"
    using that
    by (auto simp: medical_data_cleaner_def Let_def split: option.splits file_node.splits)
  moreover have "medical_data_cleaner fs [] [] [] = ErrorResult ValueError_no_input"
    by (simp add: medical_data_cleaner_def)
  ultimately have "supplied t f b = 0 \<longleftrightarrow>
      medical_data_cleaner fs t f b = ErrorResult ValueError_no_input"
    unfolding supplied_zero by blast
  then show ?thesis by (simp add: medical_data_cleaner_def)
qed

text \<open>
  Claim C8 says that a call which supplies more than one of the three arguments yields a
  validation error instead of cleaning. A call with \<open>text_content\<close> and \<open>file_path\<close> both
  supplied cleans the file and returns its result.
\<close>

theorem cleaner_two_inputs_counterexample:
  "supplied [104, 105] [102] [] = 2 \<and>
   medical_data_cleaner ex_fs [104, 105] [102] [] =
     FileResult (clean_medical_text sentence_2) [102] \<and>
   \<not> is_error (medical_data_cleaner ex_fs [104, 105] [102] [])"
  by (simp add: supplied_def medical_data_cleaner_def ex_fs_def)

theorem cleaner_input_priority_witness:
  "supplied [104, 105] [102] [] \<noteq> 0 \<and>
   medical_data_cleaner ex_fs [104, 105] [102] [] \<noteq> ErrorResult ValueError_no_input \<and>
   medical_data_cleaner ex_fs [104, 105] [102] [] = medical_data_cleaner ex_fs [] [102] [] \<and>
   medical_data_cleaner ex_fs [] [102] [] = FileResult (clean_medical_text sentence_2) [102]"
  using cleaner_input_priority [of "[104, 105]" "[102]" "[]" ex_fs]
  by (simp add: supplied_def) (simp add: medical_data_cleaner_def ex_fs_def)

section \<open>Properties of the document converter and the integrator\<close>

subsection \<open>Two linked documents for every pair\<close>






text \<open>
  The theorem is about pairs whose fields are texts. A dictionary whose question is a
  number has both keys but cannot be sliced: the \<open>try\<close> of the loop catches the
  \<open>TypeError\<close> and the element gives no document.
\<close>

lemma non_text_question_skipped:
  "convert_qa_to_documents L [JDict [(ascii ''question'', JInt 1), (ascii ''answer'', JStr a)]] = []"
  by (simp add: convert_qa_to_documents_def convert_item_def parsed_item_def has_key_def
      build_documents_def dict_get_def ascii_def)

subsection \<open>An empty data set reaches no bulk call\<close>

lemma ex_dataset_converted: "length (convert_qa_to_documents ex_lib ex_dataset) = 4"
  by (simp add: convert_qa_to_documents_def convert_item_def parsed_item_def has_key_def
      build_documents_def dict_get_def ex_dataset_def ex_pair_def ascii_def)

lemma direct_bulk_index_calls:
  "snd (direct_bulk_index L client st documents index_name) \<noteq> st \<Longrightarrow> documents \<noteq> []"
  by (auto simp: direct_bulk_index_def Let_def)

text \<open>
  Claim C10. \<open>integrate_qa_dataset\<close> with an empty data set returns a failure with
  \<open>success = False\<close> and \<open>total_processed = 0\<close> and leaves the record of bulk calls as it
  was. In general a bulk call is issued only when the list of converted documents is not
  empty, by \<open>integrate_qa_dataset\<close> as well as by \<open>_direct_bulk_index\<close>.
\<close>

theorem empty_dataset_no_bulk_call:
  "ir_success (fst (integrate_qa_dataset L client st [] index_name)) = False \<and>
   total_processed (fst (integrate_qa_dataset L client st [] index_name)) = 0 \<and>
   snd (integrate_qa_dataset L client st [] index_name) = st \<and>
   (snd (integrate_qa_dataset L client st qa_dataset index_name) \<noteq> st \<longrightarrow>
      convert_qa_to_documents L qa_dataset \<noteq> []) \<and>
   (snd (direct_bulk_index L client st documents index_name) \<noteq> st \<longrightarrow> documents \<noteq> [])"
proof -
  have "integrate_qa_dataset L client st [] index_name = (failure EmptyDataset None, st)"
    by (simp add: integrate_qa_dataset_def)
  moreover have "convert_qa_to_documents L qa_dataset \<noteq> []"
    if "snd (integrate_qa_dataset L client st qa_dataset index_name) \<noteq> st"
  proof (cases "qa_dataset = []")
    case True
    with that show ?thesis by (simp add: integrate_qa_dataset_def)
  next
    case False
    with that have "snd (direct_bulk_index L client st (convert_qa_to_documents L qa_dataset)
                      (str_lower L index_name)) \<noteq> st"
      by (simp add: integrate_qa_dataset_def Let_def)
    then show ?thesis by (rule direct_bulk_index_calls)
  qed
  ultimately show ?thesis
    using direct_bulk_index_calls [of L client st documents index_name]
    by (auto simp: failure_def)
qed

theorem empty_dataset_no_bulk_call_witness:
  "snd (integrate_qa_dataset ex_lib ex_client [] ex_dataset (ascii ''kb'')) \<noteq> [] \<and>
   convert_qa_to_documents ex_lib ex_dataset \<noteq> [] \<and>
   length (snd (integrate_qa_dataset ex_lib ex_client [] ex_dataset (ascii ''kb''))) = 1 \<and>
   snd (integrate_qa_dataset ex_lib ex_client [] [] (ascii ''kb'')) = []"
proof -
  have ne: "convert_qa_to_documents ex_lib ex_dataset \<noteq> []"
    using ex_dataset_converted by auto
  have "length (snd (integrate_qa_dataset ex_lib ex_client [] ex_dataset (ascii ''kb''))) = 1"
    using ne by (simp add: integrate_qa_dataset_def direct_bulk_index_def Let_def ex_client_def
        ex_dataset_def)
  then show ?thesis
    using empty_dataset_no_bulk_call [of ex_lib ex_client "[]" "ascii ''kb''" ex_dataset "[]"]
    by auto
qed

end
